theory Spec2Isabelle
  imports Complex_Main "HOL-Library.Sublist"
begin

section \<open>Python values\<close>

text \<open>
  A Python \<open>str\<close> is a sequence of Unicode code points, so it is modelled as a list of
  naturals: the source subscripts strings and JSON-escapes them per code point, and several
  of its literals are Japanese. \<open>ascii\<close> embeds an ASCII literal. Raw bytes (the body of
  an HTTP reply) are a HOL \<open>string\<close>.
\<close>

type_synonym pystr = "nat list"

definition ascii :: "string \<Rightarrow> pystr" where
  "ascii cs = map of_char cs"

text \<open>
  The values that \<open>json.loads\<close> can produce and that the source passes around. A
  \<open>dict\<close> keeps its insertion order and has string keys, as decoded JSON objects do.
  A float is carried as a real number; the non-finite floats that \<open>json.loads\<close> also
  accepts are left out.
\<close>

datatype pyval =
    PNone
  | PBool bool
  | PInt int
  | PFloat real
  | PStr pystr
  | PList "pyval list"
  | PDict "(pystr \<times> pyval) list"

text \<open>
  The exceptions of the model are instances of Python's class \<open>Exception\<close>: the one
  class the source names (\<open>SlackApiError\<close>, carrying the value of
  \<open>e.response['error']\<close>), the ones the interpreter raises on a failed subscript or
  attribute access, the one \<open>print\<close> raises on a string that standard output cannot
  encode (carrying that string), and any other one raised by a library (class name and
  message).
\<close>

datatype exn =
    SlackApiError pyval
  | KeyError pyval
  | IndexError
  | TypeError
  | AttributeError
  | UnicodeEncodeError pystr
  | OtherException pystr pystr

datatype pykey = KInt int | KStr pystr

text \<open>Truth value testing, as \<open>if x\<close> and \<open>not x\<close> do it.\<close>

fun truthy :: "pyval \<Rightarrow> bool" where
  "truthy PNone = False"
| "truthy (PBool b) = b"
| "truthy (PInt i) = (i \<noteq> 0)"
| "truthy (PFloat x) = (x \<noteq> 0)"
| "truthy (PStr s) = (s \<noteq> [])"
| "truthy (PList xs) = (xs \<noteq> [])"
| "truthy (PDict kvs) = (kvs \<noteq> [])"

text \<open>Indexing a sequence: a negative index counts from the end, out of range raises.\<close>

definition seq_index :: "'a list \<Rightarrow> int \<Rightarrow> exn + 'a" where
  "seq_index xs i =
     (if 0 \<le> i \<and> i < int (length xs) then Inr (xs ! nat i)
      else if i < 0 \<and> - i \<le> int (length xs) then Inr (xs ! nat (int (length xs) + i))
      else Inl IndexError)"

text \<open>The subscript \<open>v[k]\<close>.\<close>

fun subscript :: "pyval \<Rightarrow> pykey \<Rightarrow> exn + pyval" where
  "subscript (PList xs) (KInt i) = seq_index xs i"
| "subscript (PList xs) (KStr k) = Inl TypeError"
| "subscript (PStr s) (KInt i) =
     (case seq_index s i of Inl e \<Rightarrow> Inl e | Inr c \<Rightarrow> Inr (PStr [c]))"
| "subscript (PStr s) (KStr k) = Inl TypeError"
| "subscript (PDict kvs) (KStr k) =
     (case map_of kvs k of None \<Rightarrow> Inl (KeyError (PStr k)) | Some v \<Rightarrow> Inr v)"
| "subscript (PDict kvs) (KInt i) = Inl (KeyError (PInt i))"
| "subscript PNone k = Inl TypeError"
| "subscript (PBool b) k = Inl TypeError"
| "subscript (PInt i) k = Inl TypeError"
| "subscript (PFloat x) k = Inl TypeError"

text \<open>The method call \<open>v.get(k)\<close>: only a \<open>dict\<close> has it, and a missing key gives \<open>None\<close>.\<close>

fun py_get :: "pyval \<Rightarrow> pystr \<Rightarrow> exn + pyval" where
  "py_get (PDict kvs) k = Inr (case map_of kvs k of None \<Rightarrow> PNone | Some v \<Rightarrow> v)"
| "py_get PNone k = Inl AttributeError"
| "py_get (PBool b) k = Inl AttributeError"
| "py_get (PInt i) k = Inl AttributeError"
| "py_get (PFloat x) k = Inl AttributeError"
| "py_get (PStr s) k = Inl AttributeError"
| "py_get (PList xs) k = Inl AttributeError"

section \<open>JSON encoding\<close>

text \<open>
  \<open>json.dumps\<close> with its defaults (\<open>ensure_ascii=True\<close>, separators \<open>", "\<close> and
  \<open>": "\<close>). A string is written between double quotes; inside, the quote and the
  backslash are escaped, the printable ASCII characters stand for themselves, and every
  other code point becomes a \<open>\u\<close> escape of four lower-case hexadecimal digits (two of
  them, a surrogate pair, above the basic plane).
\<close>

definition hex_digit :: "nat \<Rightarrow> nat" where
  "hex_digit d = (if d < 10 then 48 + d else 87 + d)"

definition u_escape :: "nat \<Rightarrow> pystr" where
  "u_escape n =
     [92, 117, hex_digit (n div 4096 mod 16), hex_digit (n div 256 mod 16),
      hex_digit (n div 16 mod 16), hex_digit (n mod 16)]"

definition escape_char :: "nat \<Rightarrow> pystr" where
  "escape_char c =
     (if c = 34 then [92, 34]
      else if c = 92 then [92, 92]
      else if c = 10 then [92, 110]
      else if c = 13 then [92, 114]
      else if c = 9 then [92, 116]
      else if c = 8 then [92, 98]
      else if c = 12 then [92, 102]
      else if 32 \<le> c \<and> c \<le> 126 then [c]
      else if c < 65536 then u_escape c
      else u_escape (55296 + (c - 65536) div 1024 mod 1024)
         @ u_escape (56320 + (c - 65536) mod 1024))"

definition json_dumps_str :: "pystr \<Rightarrow> pystr" where
  "json_dumps_str s = [34] @ concat (map escape_char s) @ [34]"

function nat_repr :: "nat \<Rightarrow> pystr" where
  "nat_repr n = (if n < 10 then [48 + n] else nat_repr (n div 10) @ [48 + n mod 10])"
  by pat_completeness auto
termination
  by (relation "measure (\<lambda>n. n)") auto

definition int_repr :: "int \<Rightarrow> pystr" where
  "int_repr i = (if i < 0 then 45 # nat_repr (nat (- i)) else nat_repr (nat i))"

fun join :: "pystr \<Rightarrow> pystr list \<Rightarrow> pystr" where
  "join sep [] = []"
| "join sep [x] = x"
| "join sep (x # y # ys) = x @ sep @ join sep (y # ys)"

text \<open>The first argument renders a float (\<open>float.__repr__\<close>), which is not modelled.\<close>

fun json_dumps :: "(real \<Rightarrow> pystr) \<Rightarrow> pyval \<Rightarrow> pystr" where
  "json_dumps fr PNone = ascii ''null''"
| "json_dumps fr (PBool b) = (if b then ascii ''true'' else ascii ''false'')"
| "json_dumps fr (PInt i) = int_repr i"
| "json_dumps fr (PFloat x) = fr x"
| "json_dumps fr (PStr s) = json_dumps_str s"
| "json_dumps fr (PList xs) = [91] @ join [44, 32] (map (json_dumps fr) xs) @ [93]"
| "json_dumps fr (PDict kvs) =
     [123] @ join [44, 32] (map (\<lambda>kv. json_dumps_str (fst kv) @ [58, 32] @ json_dumps fr (snd kv)) kvs)
     @ [125]"

declare nat_repr.simps [simp del]

section \<open>Standard output\<close>

text \<open>
  \<open>print\<close> writes a line to standard output, which is taken to be a text stream that
  encodes as UTF-8 with the strict error handler, as Python sets it up under a UTF-8 locale.
  A \<open>str\<close> may hold surrogate code points, U+D800 to U+DFFF (\<open>json.loads\<close> yields
  one from a lone escape such as \<open>\ud83d\<close>). UTF-8 has no encoding for them: printing
  such a string writes nothing and raises \<open>UnicodeEncodeError\<close>.
\<close>

definition is_surrogate :: "nat \<Rightarrow> bool" where
  "is_surrogate c = (55296 \<le> c \<and> c \<le> 57343)"

definition encodable :: "pystr \<Rightarrow> bool" where
  "encodable s = (filter is_surrogate s = [])"

text \<open>
  The description of the codec's error, \<open>str(e)\<close>: the error is reported for the first
  run of surrogates of the string, with the character itself when the run has length one.
\<close>

definition unicode_error_str :: "pystr \<Rightarrow> pystr" where
  "unicode_error_str s =
     (let start = length (takeWhile (\<lambda>c. \<not> is_surrogate c) s);
          run = takeWhile is_surrogate (drop start s)
      in [39] @ ascii ''utf-8'' @ [39] @ ascii '' codec can'' @ [39] @ ascii ''t encode ''
         @ (if length run = 1
            then ascii ''character '' @ [39] @ u_escape (s ! start) @ [39]
                 @ ascii '' in position '' @ nat_repr start
            else ascii ''characters in position '' @ nat_repr start @ [45]
                 @ nat_repr (start + length run - 1))
         @ ascii '': surrogates not allowed'')"

section \<open>The external collaborators\<close>

text \<open>
  The clients built at import time. Their constructors only store their arguments.
\<close>

datatype web_client = WebClient (token: pystr)

datatype boto_client = BotoClient (service_name: pystr) (region_name: pystr)

text \<open>
  What the source uses of the objects the libraries return: a Slack response is subscripted
  (\<open>response["messages"]\<close>), and the reply of \<open>invoke_model\<close> is a \<open>dict\<close> whose
  \<open>'body'\<close> entry, when present, is a stream that is read once.
\<close>

record slack_response =
  getitem :: "pystr \<Rightarrow> exn + pyval"

record bedrock_response =
  body_stream :: "(exn + string) option"

text \<open>
  The world of one invocation: the replies of the two services, and the library functions
  \<open>json.loads\<close>, \<open>str\<close> (on a float, a list or a dict, and on an exception of a
  library) and \<open>float.__repr__\<close>. Every remote call may raise.
\<close>

record env =
  conversations_history :: "web_client \<Rightarrow> pystr \<Rightarrow> nat \<Rightarrow> bool \<Rightarrow> exn + slack_response"
  chat_postMessage :: "web_client \<Rightarrow> pystr \<Rightarrow> pystr \<Rightarrow> exn + unit"
  invoke_model :: "boto_client \<Rightarrow> pystr \<Rightarrow> pystr \<Rightarrow> pystr \<Rightarrow> pystr \<Rightarrow> exn + bedrock_response"
  json_loads :: "string \<Rightarrow> exn + pyval"
  builtin_str :: "pyval \<Rightarrow> pystr"
  exc_str :: "exn \<Rightarrow> pystr"
  float_repr :: "real \<Rightarrow> pystr"

text \<open>
  The effects of the program: the calls that leave the process, in order, with their
  arguments (\<open>limit\<close> and \<open>inclusive\<close> for the history call; body, model identifier,
  \<open>accept\<close> and \<open>contentType\<close> for the inference call), the reads of the process
  environment, and the lines printed.
\<close>

datatype call =
    EnvironGet pystr
  | ConversationsHistory web_client pystr nat bool
  | InvokeModel boto_client pystr pystr pystr pystr
  | ChatPostMessage web_client pystr pystr

record effects =
  calls :: "call list"
  stdout :: "pystr list"

definition print :: "pystr \<Rightarrow> effects \<Rightarrow> (exn + unit) \<times> effects" where
  "print line s =
     (if encodable line then (Inr (), s\<lparr>stdout := stdout s @ [line]\<rparr>)
      else (Inl (UnicodeEncodeError line), s))"

definition record_call :: "call \<Rightarrow> effects \<Rightarrow> effects" where
  "record_call c s = s\<lparr>calls := calls s @ [c]\<rparr>"

text \<open>A replacement field of an f-string: \<open>str\<close> of the value.\<close>

definition py_str :: "env \<Rightarrow> pyval \<Rightarrow> pystr" where
  "py_str w v =
     (case v of
        PStr s \<Rightarrow> s
      | PNone \<Rightarrow> ascii ''None''
      | PBool b \<Rightarrow> (if b then ascii ''True'' else ascii ''False'')
      | PInt i \<Rightarrow> int_repr i
      | _ \<Rightarrow> builtin_str w v)"

text \<open>\<open>str(e)\<close>, also what the replacement field \<open>{e}\<close> of an f-string gives.\<close>

definition exception_str :: "env \<Rightarrow> exn \<Rightarrow> pystr" where
  "exception_str w e = (case e of UnicodeEncodeError s \<Rightarrow> unicode_error_str s | _ \<Rightarrow> exc_str w e)"

section \<open>Module initialisation\<close>

record globals =
  slack_bot_token :: pystr
  slack_client :: web_client
  bedrock_runtime :: boto_client

definition missing_token_message :: pystr where
  "missing_token_message =
     [29872, 22659, 22793, 25968, 32, 96] @ ascii ''SLACK_BOT_TOKEN''
     @ [96, 32, 12364, 35373, 23450, 12373, 12428, 12390, 12356, 12414, 12379, 12435, 12290]"

text \<open>
  The statements at module level, run when the module is imported: the token is looked up
  in \<open>os.environ\<close>, a missing key is turned into an \<open>Exception\<close>, and the two clients
  are built.
\<close>

definition module_init :: "(pystr \<rightharpoonup> pystr) \<Rightarrow> effects \<Rightarrow> (exn + globals) \<times> effects" where
  "module_init environ s0 =
     (let s1 = record_call (EnvironGet (ascii ''SLACK_BOT_TOKEN'')) s0
      in case environ (ascii ''SLACK_BOT_TOKEN'') of
           None \<Rightarrow> (Inl (OtherException (ascii ''Exception'') missing_token_message), s1)
         | Some tok \<Rightarrow>
             (Inr \<lparr>slack_bot_token = tok,
                   slack_client = WebClient tok,
                   bedrock_runtime = BotoClient (ascii ''bedrock-runtime'') (ascii ''us-east-1'')\<rparr>,
              s1))"

section \<open>The three steps\<close>

text \<open>
  Every function returns its result, or the exception it raises, together with the effects
  so far. A \<open>print\<close> that raises ends the function like any other statement that raises,
  unless an enclosing \<open>try\<close> catches it.
\<close>

definition is_SlackApiError :: "exn \<Rightarrow> bool" where
  "is_SlackApiError e = (case e of SlackApiError r \<Rightarrow> True | _ \<Rightarrow> False)"

definition response_error :: "exn \<Rightarrow> pyval" where
  "response_error e = (case e of SlackApiError r \<Rightarrow> r | _ \<Rightarrow> PNone)"

text \<open>
  The body of the \<open>try\<close> of \<open>get_latest_message_from_slack\<close>, after the history call
  has returned.
\<close>

definition latest_of_response :: "env \<Rightarrow> slack_response \<Rightarrow> effects \<Rightarrow> (exn + pyval) \<times> effects" where
  "latest_of_response w response s =
     (case getitem response (ascii ''messages'') of
        Inl e \<Rightarrow> (Inl e, s)
      | Inr messages \<Rightarrow>
          if truthy messages then
            (case subscript messages (KInt 0) of
               Inl e \<Rightarrow> (Inl e, s)
             | Inr first \<Rightarrow>
                 (case subscript first (KStr (ascii ''text'')) of
                    Inl e \<Rightarrow> (Inl e, s)
                  | Inr latest_message \<Rightarrow>
                      (case print (ascii ''Found message: '' @ py_str w latest_message) s of
                         (Inl e, s1) \<Rightarrow> (Inl e, s1)
                       | (Inr u, s1) \<Rightarrow> (Inr latest_message, s1))))
          else
            (case print (ascii ''No messages found in the channel.'') s of
               (Inl e, s1) \<Rightarrow> (Inl e, s1)
             | (Inr u, s1) \<Rightarrow> (Inr PNone, s1)))"

text \<open>
  The \<open>except SlackApiError\<close> clause prints the error code of the response and raises the
  exception again; any other exception passes through untouched.
\<close>

definition get_latest_message_from_slack ::
    "env \<Rightarrow> globals \<Rightarrow> pystr \<Rightarrow> effects \<Rightarrow> (exn + pyval) \<times> effects" where
  "get_latest_message_from_slack w g channel_id s0 =
     (case print (ascii ''Fetching message from channel: '' @ channel_id) s0 of
        (Inl e, s1) \<Rightarrow> (Inl e, s1)
      | (Inr u, s1) \<Rightarrow>
          (let s2 = record_call (ConversationsHistory (slack_client g) channel_id 1 True) s1;
               r = (case conversations_history w (slack_client g) channel_id 1 True of
                      Inl e \<Rightarrow> (Inl e, s2)
                    | Inr response \<Rightarrow> latest_of_response w response s2)
           in case r of
                (Inl e, s3) \<Rightarrow>
                  if is_SlackApiError e
                  then (case print (ascii ''Slack API Error (history): ''
                                      @ py_str w (response_error e)) s3 of
                          (Inl e', s4) \<Rightarrow> (Inl e', s4)
                        | (Inr u, s4) \<Rightarrow> (Inl e, s4))
                  else (Inl e, s3)
              | (Inr v, s3) \<Rightarrow> (Inr v, s3)))"

definition prompt_head :: pystr where
  "prompt_head =
     ascii ''Human: '' @ [20197, 19979, 12398] @ ascii ''Slack''
     @ [12398, 25237, 31295, 12434, 12289, 37325, 35201, 12394, 12509, 12452, 12531, 12488,
        12434, 31623, 26465, 26360, 12365, 12391, 31777, 28500, 12395, 35201, 32004, 12375,
        12390, 12367, 12384, 12373, 12356, 12290, 10, 10, 60, 25237, 31295, 20869, 23481, 62, 10]"

definition prompt_tail :: pystr where
  "prompt_tail = [10, 60, 47, 25237, 31295, 20869, 23481, 62, 10, 10] @ ascii ''Assistant:''"

definition prompt :: "env \<Rightarrow> pyval \<Rightarrow> pystr" where
  "prompt w text_to_summarize = prompt_head @ py_str w text_to_summarize @ prompt_tail"

definition request_payload :: "pystr \<Rightarrow> pyval" where
  "request_payload p =
     PDict [(ascii ''anthropic_version'', PStr (ascii ''bedrock-2023-05-31'')),
            (ascii ''max_tokens'', PInt 1000),
            (ascii ''messages'',
             PList [PDict [(ascii ''role'', PStr (ascii ''user'')),
                           (ascii ''content'',
                            PList [PDict [(ascii ''type'', PStr (ascii ''text'')),
                                          (ascii ''text'', PStr p)]])]])]"

definition request_body :: "env \<Rightarrow> pyval \<Rightarrow> pystr" where
  "request_body w text_to_summarize =
     json_dumps (float_repr w) (request_payload (prompt w text_to_summarize))"

definition model_id :: pystr where
  "model_id = ascii ''anthropic.claude-3-7-sonnet-20250219-v1:0''"

text \<open>
  The first two statements of the \<open>try\<close> of \<open>invoke_bedrock_model\<close>, after
  \<open>invoke_model\<close> has returned: read the stream, decode it, and take
  \<open>.get('content')[0].get('text')\<close>.
\<close>

definition summary_of_response :: "env \<Rightarrow> bedrock_response \<Rightarrow> exn + pyval" where
  "summary_of_response w response =
     (case body_stream response of
        None \<Rightarrow> Inl AttributeError
      | Some stream \<Rightarrow>
          (case stream of
             Inl e \<Rightarrow> Inl e
           | Inr raw \<Rightarrow>
               (case json_loads w raw of
                  Inl e \<Rightarrow> Inl e
                | Inr response_body \<Rightarrow>
                    (case py_get response_body (ascii ''content'') of
                       Inl e \<Rightarrow> Inl e
                     | Inr content \<Rightarrow>
                         (case subscript content (KInt 0) of
                            Inl e \<Rightarrow> Inl e
                          | Inr first \<Rightarrow> py_get first (ascii ''text''))))))"

text \<open>
  The \<open>print\<close> of the summary is inside the \<open>try\<close>, so the \<open>except Exception\<close>
  clause also catches what that \<open>print\<close> raises. The clause prints the description of
  the exception and raises it again, unless this second \<open>print\<close> raises itself.
\<close>

definition invoke_bedrock_model ::
    "env \<Rightarrow> globals \<Rightarrow> pyval \<Rightarrow> effects \<Rightarrow> (exn + pyval) \<times> effects" where
  "invoke_bedrock_model w g text_to_summarize s0 =
     (case print (ascii ''Invoking Bedrock model (Claude 3.7 Sonnet)...'') s0 of
        (Inl e, s1) \<Rightarrow> (Inl e, s1)
      | (Inr u, s1) \<Rightarrow>
          (let body = request_body w text_to_summarize;
               s2 = record_call (InvokeModel (bedrock_runtime g) body model_id
                                   (ascii ''application/json'') (ascii ''application/json'')) s1;
               r = (case (case invoke_model w (bedrock_runtime g) body model_id
                                 (ascii ''application/json'') (ascii ''application/json'') of
                            Inl e \<Rightarrow> Inl e
                          | Inr response \<Rightarrow> summary_of_response w response) of
                      Inl e \<Rightarrow> (Inl e, s2)
                    | Inr summary \<Rightarrow>
                        (case print (ascii ''Successfully got summary from Bedrock: ''
                                       @ py_str w summary) s2 of
                           (Inl e, s3) \<Rightarrow> (Inl e, s3)
                         | (Inr u, s3) \<Rightarrow> (Inr summary, s3)))
           in case r of
                (Inl e, s3) \<Rightarrow>
                  (case print (ascii ''Bedrock invocation error: '' @ exception_str w e) s3 of
                     (Inl e', s4) \<Rightarrow> (Inl e', s4)
                   | (Inr u, s4) \<Rightarrow> (Inl e, s4))
              | (Inr summary, s3) \<Rightarrow> (Inr summary, s3)))"

definition post_message_to_slack ::
    "env \<Rightarrow> globals \<Rightarrow> pystr \<Rightarrow> pystr \<Rightarrow> effects \<Rightarrow> (exn + unit) \<times> effects" where
  "post_message_to_slack w g channel_id text s0 =
     (case print (ascii ''Posting message to channel: '' @ channel_id) s0 of
        (Inl e, s1) \<Rightarrow> (Inl e, s1)
      | (Inr u, s1) \<Rightarrow>
          (let s2 = record_call (ChatPostMessage (slack_client g) channel_id text) s1;
               r = (case chat_postMessage w (slack_client g) channel_id text of
                      Inl e \<Rightarrow> (Inl e, s2)
                    | Inr v \<Rightarrow> print (ascii ''Successfully posted message to Slack.'') s2)
           in case r of
                (Inl e, s3) \<Rightarrow>
                  if is_SlackApiError e
                  then (case print (ascii ''Slack API Error (post): ''
                                      @ py_str w (response_error e)) s3 of
                          (Inl e', s4) \<Rightarrow> (Inl e', s4)
                        | (Inr u, s4) \<Rightarrow> (Inl e, s4))
                  else (Inl e, s3)
              | (Inr u, s3) \<Rightarrow> (Inr (), s3)))"

section \<open>The handler\<close>

record lambda_result =
  statusCode :: int
  body :: pystr

definition INPUT_CHANNEL_ID :: pystr where
  "INPUT_CHANNEL_ID = ascii ''C091S67LDEJ''"

definition OUTPUT_CHANNEL_ID :: pystr where
  "OUTPUT_CHANNEL_ID = ascii ''C09344CE82C''"

definition summary_prefix :: pystr where
  "summary_prefix = [12304, 65, 73, 12395, 12424, 12427, 35201, 32004, 12305]"

definition result_text :: "env \<Rightarrow> pyval \<Rightarrow> pystr" where
  "result_text w summary = summary_prefix @ [10, 62, 62, 62, 32] @ py_str w summary"

text \<open>The body of the \<open>try\<close> of \<open>lambda_handler\<close>: the three steps in sequence.\<close>

definition lambda_steps :: "env \<Rightarrow> globals \<Rightarrow> effects \<Rightarrow> (exn + lambda_result) \<times> effects" where
  "lambda_steps w g s0 =
     (case get_latest_message_from_slack w g INPUT_CHANNEL_ID s0 of
        (Inl e, s1) \<Rightarrow> (Inl e, s1)
      | (Inr message_text, s1) \<Rightarrow>
          if \<not> truthy message_text then
            (case print (ascii ''--- End Execution: No message found ---'') s1 of
               (Inl e, s2) \<Rightarrow> (Inl e, s2)
             | (Inr u, s2) \<Rightarrow>
                 (Inr \<lparr>statusCode = 200,
                       body = json_dumps_str (ascii ''No new messages to process.'')\<rparr>, s2))
          else
            (case invoke_bedrock_model w g message_text s1 of
               (Inl e, s2) \<Rightarrow> (Inl e, s2)
             | (Inr summary, s2) \<Rightarrow>
                 (case post_message_to_slack w g OUTPUT_CHANNEL_ID (result_text w summary) s2 of
                    (Inl e, s3) \<Rightarrow> (Inl e, s3)
                  | (Inr u, s3) \<Rightarrow>
                      (case print (ascii ''--- End Execution: Success ---'') s3 of
                         (Inl e, s4) \<Rightarrow> (Inl e, s4)
                       | (Inr u, s4) \<Rightarrow>
                           (Inr \<lparr>statusCode = 200,
                                 body = json_dumps_str (ascii ''Successfully processed message.'')\<rparr>,
                            s4)))))"

text \<open>
  \<open>lambda_handler\<close>: the \<open>try\<close> with its handler for \<open>Exception\<close>. The handler
  prints the description of the exception before it builds the result, so what that
  \<open>print\<close> raises leaves \<open>lambda_handler\<close>. The event and the context are not used.
\<close>

definition lambda_handler ::
    "env \<Rightarrow> globals \<Rightarrow> pyval \<Rightarrow> pyval \<Rightarrow> effects \<Rightarrow> (exn + lambda_result) \<times> effects" where
  "lambda_handler w g event context s0 =
     (case print (ascii ''--- Start Execution ---'') s0 of
        (Inl e, s1) \<Rightarrow> (Inl e, s1)
      | (Inr u, s1) \<Rightarrow>
          (case lambda_steps w g s1 of
             (Inl e, s2) \<Rightarrow>
               (case print (ascii ''An unexpected error occurred: '' @ exception_str w e) s2 of
                  (Inl e', s3) \<Rightarrow> (Inl e', s3)
                | (Inr u, s3) \<Rightarrow>
                    (case print (ascii ''--- End Execution: Error ---'') s3 of
                       (Inl e', s4) \<Rightarrow> (Inl e', s4)
                     | (Inr u, s4) \<Rightarrow>
                         (Inr \<lparr>statusCode = 500,
                               body = json_dumps_str
                                        (ascii ''An error occurred: '' @ exception_str w e)\<rparr>,
                          s4)))
           | (Inr r, s2) \<Rightarrow> (Inr r, s2)))"

section \<open>The life of a process\<close>

text \<open>
  Python runs the statements at module level once, when the module is imported; only if
  the import succeeds can the platform call \<open>lambda_handler\<close>, once per trigger and with
  the same globals. Each trigger comes with the world it meets, its event and its context.
\<close>

definition is_EnvironGet :: "call \<Rightarrow> bool" where
  "is_EnvironGet c = (case c of EnvironGet k \<Rightarrow> True | _ \<Rightarrow> False)"

fun invocations ::
    "globals \<Rightarrow> (env \<times> pyval \<times> pyval) list \<Rightarrow> effects \<Rightarrow> (exn + lambda_result) list \<times> effects" where
  "invocations g [] s = ([], s)"
| "invocations g ((w, event, context) # rest) s =
     (case lambda_handler w g event context s of
        (r, s1) \<Rightarrow> (case invocations g rest s1 of (rs, s2) \<Rightarrow> (r # rs, s2)))"

definition process ::
    "(pystr \<rightharpoonup> pystr) \<Rightarrow> (env \<times> pyval \<times> pyval) list \<Rightarrow> effects
       \<Rightarrow> (exn + (exn + lambda_result) list) \<times> effects" where
  "process environ triggers s0 =
     (case module_init environ s0 of
        (Inl e, s1) \<Rightarrow> (Inl e, s1)
      | (Inr g, s1) \<Rightarrow> (case invocations g triggers s1 of (rs, s2) \<Rightarrow> (Inr rs, s2)))"

section \<open>Worlds for the examples\<close>

text \<open>
  A world given by four replies: the value of \<open>response["messages"]\<close> (or the error of
  the history call), the reply of \<open>invoke_model\<close>, the result of decoding its body, and
  the result of the post call.
\<close>

definition example_world ::
    "(exn + pyval) \<Rightarrow> (exn + bedrock_response) \<Rightarrow> (exn + pyval) \<Rightarrow> (exn + unit) \<Rightarrow> env" where
  "example_world messages reply decoded posted =
     \<lparr>conversations_history =
        (\<lambda>client channel limit inclusive.
           case messages of
             Inl e \<Rightarrow> Inl e
           | Inr ms \<Rightarrow> Inr \<lparr>getitem = (\<lambda>key. Inr (if key = ascii ''messages'' then ms else PNone))\<rparr>),
      chat_postMessage = (\<lambda>client channel text. posted),
      invoke_model = (\<lambda>client body model accept content_type. reply),
      json_loads = (\<lambda>raw. decoded),
      builtin_str = (\<lambda>v. ascii ''<object>''),
      exc_str = (\<lambda>e. case e of OtherException c m \<Rightarrow> m | _ \<Rightarrow> ascii ''error''),
      float_repr = (\<lambda>x. ascii ''<float>'')\<rparr>"

definition example_globals :: globals where
  "example_globals =
     \<lparr>slack_bot_token = ascii ''xoxb-example'',
      slack_client = WebClient (ascii ''xoxb-example''),
      bedrock_runtime = BotoClient (ascii ''bedrock-runtime'') (ascii ''us-east-1'')\<rparr>"

definition no_effects :: effects where
  "no_effects = \<lparr>calls = [], stdout = []\<rparr>"

definition one_message :: "pystr \<Rightarrow> pyval" where
  "one_message t =
     PList [PDict [(ascii ''type'', PStr (ascii ''message'')), (ascii ''text'', PStr t)]]"

definition stream_reply :: "exn + bedrock_response" where
  "stream_reply = Inr \<lparr>body_stream = Some (Inr ''reply'')\<rparr>"

definition summary_body :: "pystr \<Rightarrow> pyval" where
  "summary_body t =
     PDict [(ascii ''id'', PStr (ascii ''msg_01'')),
            (ascii ''content'',
             PList [PDict [(ascii ''type'', PStr (ascii ''text'')), (ascii ''text'', PStr t)]])]"

definition empty_channel_world :: env where
  "empty_channel_world =
     example_world (Inr (PList [])) stream_reply (Inr (summary_body (ascii ''- Shipped v2''))) (Inr ())"

definition blank_message_world :: env where
  "blank_message_world =
     example_world (Inr (one_message [])) stream_reply (Inr (summary_body (ascii ''- Shipped v2'')))
       (Inr ())"

definition shipped_world :: env where
  "shipped_world =
     example_world (Inr (one_message (ascii ''Team shipped v2 today.'')))
       stream_reply (Inr (summary_body (ascii ''- Shipped v2''))) (Inr ())"

definition hello_world :: env where
  "hello_world =
     example_world (Inr (one_message (ascii ''Hello'')))
       stream_reply (Inr (summary_body (ascii ''- A greeting''))) (Inr ())"


definition failing_inference_world :: env where
  "failing_inference_world =
     example_world (Inr (one_message (ascii ''Hello'')))
       (Inl (OtherException (ascii ''ClientError'') (ascii ''throttled'')))
       (Inr (summary_body (ascii ''- A greeting''))) (Inr ())"



definition failing_post_world :: env where
  "failing_post_world =
     example_world (Inr (one_message (ascii ''Hello''))) stream_reply
       (Inr (summary_body (ascii ''- A greeting'')))
       (Inl (SlackApiError (PStr (ascii ''not_in_channel''))))"


definition unprintable_post_error_world :: env where
  "unprintable_post_error_world =
     example_world (Inr (one_message (ascii ''Hello''))) stream_reply
       (Inr (summary_body (ascii ''- A greeting'')))
       (Inl (OtherException (ascii ''Exception'') [55357]))"



section \<open>What can be printed\<close>

lemma encodable_Nil [simp]: "encodable []"
  by (simp add: encodable_def)

lemma encodable_append [simp]: "encodable (xs @ ys) \<longleftrightarrow> encodable xs \<and> encodable ys"
  by (simp add: encodable_def)

lemma encodable_Cons [simp]: "encodable (c # cs) \<longleftrightarrow> \<not> is_surrogate c \<and> encodable cs"
  by (simp add: encodable_def)

lemma encodable_ascii [simp]: "encodable (ascii cs)"
proof -
  have "\<not> is_surrogate (of_char c)" for c :: char
  proof -
    have "(of_char c :: nat) < 256" by simp
    then have "(of_char c :: nat) < 55296" by (rule less_trans) simp
    then show ?thesis by (simp add: is_surrogate_def)
  qed
  then show ?thesis
    by (simp add: encodable_def ascii_def filter_empty_conv)
qed

lemma encodable_nat_repr [simp]: "encodable (nat_repr n)"
proof (induction n rule: nat_repr.induct)
  case (1 n)
  show ?case
  proof (cases "n < 10")
    case True
    then show ?thesis by (simp add: nat_repr.simps [of n] is_surrogate_def)
  next
    case False
    have "n mod 10 < 10" by simp
    then have "\<not> is_surrogate (48 + n mod 10)" by (simp add: is_surrogate_def)
    with 1 False show ?thesis by (simp add: nat_repr.simps [of n])
  qed
qed

lemma hex_digit_small: "d < 16 \<Longrightarrow> \<not> is_surrogate (hex_digit d)"
  by (simp add: hex_digit_def is_surrogate_def)

lemma encodable_u_escape [simp]: "encodable (u_escape n)"
  by (simp add: u_escape_def hex_digit_small) (simp add: is_surrogate_def)

lemma encodable_unicode_error_str [simp]: "encodable (unicode_error_str s)"
  by (simp add: unicode_error_str_def Let_def) (simp add: is_surrogate_def)

lemma encodable_error_of_print [simp]: "encodable (exception_str w (UnicodeEncodeError s))"
  by (simp add: exception_str_def)

lemma encodable_channels [simp]: "encodable INPUT_CHANNEL_ID" "encodable OUTPUT_CHANNEL_ID"
  by (simp_all add: INPUT_CHANNEL_ID_def OUTPUT_CHANNEL_ID_def)

lemma print_ok: "encodable l \<Longrightarrow> print l s = (Inr (), s\<lparr>stdout := stdout s @ [l]\<rparr>)"
  by (simp add: print_def)

lemma print_raises: "\<not> encodable l \<Longrightarrow> print l s = (Inl (UnicodeEncodeError l), s)"
  by (simp add: print_def)

lemma print_result:
  "fst (print l s) = (if encodable l then Inr () else Inl (UnicodeEncodeError l))"
  by (simp add: print_def)

lemma calls_print [simp]: "calls (snd (print l s)) = calls s"
  by (simp add: print_def)

lemma calls_record_call [simp]: "calls (record_call c s) = calls s @ [c]"
  by (simp add: record_call_def)

section \<open>Results and effects of the steps\<close>

text \<open>
  Every step adds exactly one call to the trace, and its result does not depend on the
  effects recorded so far.
\<close>

lemma latest_of_response_calls [simp]:
  "calls (snd (latest_of_response w response s)) = calls s"
  by (simp add: latest_of_response_def print_def split: sum.splits)

lemma latest_of_response_result:
  "fst (latest_of_response w response s) = fst (latest_of_response w response s')"
  by (simp add: latest_of_response_def print_def split: sum.splits)

lemma latest_of_response_callsD:
  "latest_of_response w response s = (r, s') \<Longrightarrow> calls s' = calls s"
  using latest_of_response_calls [of w response s] by simp

lemma get_latest_calls [simp]:
  "encodable ch \<Longrightarrow>
   calls (snd (get_latest_message_from_slack w g ch s)) =
     calls s @ [ConversationsHistory (slack_client g) ch 1 True]"
  by (auto simp add: get_latest_message_from_slack_def Let_def print_def
      split: sum.splits prod.splits dest: latest_of_response_callsD)

lemma get_latest_fst_actual:
  "encodable ch \<Longrightarrow>
   fst (get_latest_message_from_slack w g ch s) =
     (case (case conversations_history w (slack_client g) ch 1 True of
              Inl e \<Rightarrow> Inl e
            | Inr response \<Rightarrow>
                fst (latest_of_response w response
                       (record_call (ConversationsHistory (slack_client g) ch 1 True)
                          (snd (print (ascii ''Fetching message from channel: '' @ ch) s))))) of
        Inl e \<Rightarrow>
          if is_SlackApiError e \<and> \<not> encodable (py_str w (response_error e))
          then Inl (UnicodeEncodeError
                      (ascii ''Slack API Error (history): '' @ py_str w (response_error e)))
          else Inl e
      | Inr v \<Rightarrow> Inr v)"
  by (simp add: get_latest_message_from_slack_def Let_def print_def
      split: sum.splits prod.splits)

lemma get_latest_fst:
  "encodable ch \<Longrightarrow>
   fst (get_latest_message_from_slack w g ch s) =
     (case (case conversations_history w (slack_client g) ch 1 True of
              Inl e \<Rightarrow> Inl e
            | Inr response \<Rightarrow> fst (latest_of_response w response s')) of
        Inl e \<Rightarrow>
          if is_SlackApiError e \<and> \<not> encodable (py_str w (response_error e))
          then Inl (UnicodeEncodeError
                      (ascii ''Slack API Error (history): '' @ py_str w (response_error e)))
          else Inl e
      | Inr v \<Rightarrow> Inr v)"
  unfolding get_latest_fst_actual
    latest_of_response_result [of w _
      "record_call (ConversationsHistory (slack_client g) ch 1 True)
         (snd (print (ascii ''Fetching message from channel: '' @ ch) s))" s']
  by (rule refl)

lemma get_latest_result:
  "fst (get_latest_message_from_slack w g ch s) = fst (get_latest_message_from_slack w g ch s')"
proof (cases "encodable ch")
  case True
  show ?thesis
    unfolding get_latest_fst [OF True, where s = s and s' = s]
      get_latest_fst [OF True, where s = s' and s' = s]
    by (rule refl)
next
  case False
  then show ?thesis
    by (simp add: get_latest_message_from_slack_def print_def)
qed

lemma invoke_calls [simp]:
  "calls (snd (invoke_bedrock_model w g m s)) =
     calls s @ [InvokeModel (bedrock_runtime g) (request_body w m) model_id
                  (ascii ''application/json'') (ascii ''application/json'')]"
  by (simp add: invoke_bedrock_model_def Let_def print_def split: sum.splits)

lemma invoke_fst:
  "fst (invoke_bedrock_model w g m s) =
     (case (case invoke_model w (bedrock_runtime g) (request_body w m) model_id
                   (ascii ''application/json'') (ascii ''application/json'') of
              Inl e \<Rightarrow> Inl e
            | Inr response \<Rightarrow> summary_of_response w response) of
        Inl e \<Rightarrow>
          if encodable (exception_str w e) then Inl e
          else Inl (UnicodeEncodeError (ascii ''Bedrock invocation error: '' @ exception_str w e))
      | Inr summary \<Rightarrow>
          if encodable (py_str w summary) then Inr summary
          else Inl (UnicodeEncodeError
                      (ascii ''Successfully got summary from Bedrock: '' @ py_str w summary)))"
  by (simp add: invoke_bedrock_model_def Let_def print_def split: sum.splits)

lemma invoke_result:
  "fst (invoke_bedrock_model w g m s) = fst (invoke_bedrock_model w g m s')"
  by (simp add: invoke_fst)

lemma invoke_error_printable:
  "fst (invoke_bedrock_model w g m s) = Inl e \<Longrightarrow> encodable (exception_str w e)"
  by (auto simp add: invoke_fst split: sum.splits if_splits)

lemma post_calls [simp]:
  "encodable ch \<Longrightarrow>
   calls (snd (post_message_to_slack w g ch text s)) =
     calls s @ [ChatPostMessage (slack_client g) ch text]"
  by (simp add: post_message_to_slack_def Let_def print_def split: sum.splits)

lemma post_fst:
  "encodable ch \<Longrightarrow>
   fst (post_message_to_slack w g ch text s) =
     (case chat_postMessage w (slack_client g) ch text of
        Inl e \<Rightarrow>
          if is_SlackApiError e \<and> \<not> encodable (py_str w (response_error e))
          then Inl (UnicodeEncodeError
                      (ascii ''Slack API Error (post): '' @ py_str w (response_error e)))
          else Inl e
      | Inr v \<Rightarrow> Inr ())"
  by (simp add: post_message_to_slack_def Let_def print_def split: sum.splits)

lemma post_result:
  "fst (post_message_to_slack w g ch text s) = fst (post_message_to_slack w g ch text s')"
proof (cases "encodable ch")
  case True
  then show ?thesis by (simp add: post_fst)
next
  case False
  then show ?thesis by (simp add: post_message_to_slack_def print_def)
qed

lemma lambda_steps_fst_actual:
  "fst (lambda_steps w g s) =
     (case fst (get_latest_message_from_slack w g INPUT_CHANNEL_ID s) of
        Inl e \<Rightarrow> Inl e
      | Inr m \<Rightarrow>
          if \<not> truthy m
          then Inr \<lparr>statusCode = 200, body = json_dumps_str (ascii ''No new messages to process.'')\<rparr>
          else (case fst (invoke_bedrock_model w g m (snd (get_latest_message_from_slack w g INPUT_CHANNEL_ID s))) of
                  Inl e \<Rightarrow> Inl e
                | Inr summary \<Rightarrow>
                    (case fst (post_message_to_slack w g OUTPUT_CHANNEL_ID (result_text w summary)
                                 (snd (invoke_bedrock_model w g m (snd (get_latest_message_from_slack w g INPUT_CHANNEL_ID s))))) of
                       Inl e \<Rightarrow> Inl e
                     | Inr u \<Rightarrow>
                         Inr \<lparr>statusCode = 200,
                              body = json_dumps_str (ascii ''Successfully processed message.'')\<rparr>)))"
  by (simp add: lambda_steps_def print_def split: prod.splits sum.splits)

lemma lambda_steps_fst:
  "fst (lambda_steps w g s) =
     (case fst (get_latest_message_from_slack w g INPUT_CHANNEL_ID sa) of
        Inl e \<Rightarrow> Inl e
      | Inr m \<Rightarrow>
          if \<not> truthy m
          then Inr \<lparr>statusCode = 200, body = json_dumps_str (ascii ''No new messages to process.'')\<rparr>
          else (case fst (invoke_bedrock_model w g m sb) of
                  Inl e \<Rightarrow> Inl e
                | Inr summary \<Rightarrow>
                    (case fst (post_message_to_slack w g OUTPUT_CHANNEL_ID (result_text w summary) sc) of
                       Inl e \<Rightarrow> Inl e
                     | Inr u \<Rightarrow>
                         Inr \<lparr>statusCode = 200,
                              body = json_dumps_str (ascii ''Successfully processed message.'')\<rparr>)))"
  unfolding lambda_steps_fst_actual
    get_latest_result [of w g INPUT_CHANNEL_ID s sa]
    invoke_result [of w g _ "snd (get_latest_message_from_slack w g INPUT_CHANNEL_ID s)" sb]
    post_result [of w g _ _ "snd (invoke_bedrock_model w g _ (snd (get_latest_message_from_slack w g INPUT_CHANNEL_ID s)))" sc]
  by (rule refl)

lemma get_latest_callsD:
  "get_latest_message_from_slack w g INPUT_CHANNEL_ID s = (r, s1) \<Longrightarrow>
     calls s1 = calls s @ [ConversationsHistory (slack_client g) INPUT_CHANNEL_ID 1 True]"
  using get_latest_calls [of INPUT_CHANNEL_ID w g s] by simp

lemma invoke_callsD:
  "invoke_bedrock_model w g m s = (r, s1) \<Longrightarrow>
     calls s1 = calls s @ [InvokeModel (bedrock_runtime g) (request_body w m) model_id
                             (ascii ''application/json'') (ascii ''application/json'')]"
  using invoke_calls [of w g m s] by simp

lemma post_callsD:
  "post_message_to_slack w g OUTPUT_CHANNEL_ID text s = (r, s1) \<Longrightarrow>
     calls s1 = calls s @ [ChatPostMessage (slack_client g) OUTPUT_CHANNEL_ID text]"
  using post_calls [of OUTPUT_CHANNEL_ID w g "text" s] by simp

lemma lambda_steps_calls_actual:
  "calls (snd (lambda_steps w g s)) =
     calls s @ ConversationsHistory (slack_client g) INPUT_CHANNEL_ID 1 True #
     (case fst (get_latest_message_from_slack w g INPUT_CHANNEL_ID s) of
        Inl e \<Rightarrow> []
      | Inr m \<Rightarrow>
          if \<not> truthy m then []
          else InvokeModel (bedrock_runtime g) (request_body w m) model_id
                 (ascii ''application/json'') (ascii ''application/json'') #
               (case fst (invoke_bedrock_model w g m (snd (get_latest_message_from_slack w g INPUT_CHANNEL_ID s))) of
                  Inl e \<Rightarrow> []
                | Inr summary \<Rightarrow>
                    [ChatPostMessage (slack_client g) OUTPUT_CHANNEL_ID (result_text w summary)]))"
  by (auto simp add: lambda_steps_def print_def split: prod.splits sum.splits
      dest!: get_latest_callsD invoke_callsD post_callsD)

lemma lambda_steps_calls:
  "calls (snd (lambda_steps w g s)) =
     calls s @ ConversationsHistory (slack_client g) INPUT_CHANNEL_ID 1 True #
     (case fst (get_latest_message_from_slack w g INPUT_CHANNEL_ID sa) of
        Inl e \<Rightarrow> []
      | Inr m \<Rightarrow>
          if \<not> truthy m then []
          else InvokeModel (bedrock_runtime g) (request_body w m) model_id
                 (ascii ''application/json'') (ascii ''application/json'') #
               (case fst (invoke_bedrock_model w g m sb) of
                  Inl e \<Rightarrow> []
                | Inr summary \<Rightarrow>
                    [ChatPostMessage (slack_client g) OUTPUT_CHANNEL_ID (result_text w summary)]))"
  unfolding lambda_steps_calls_actual
    get_latest_result [of w g INPUT_CHANNEL_ID s sa]
    invoke_result [of w g _ "snd (get_latest_message_from_slack w g INPUT_CHANNEL_ID s)" sb]
  by (rule refl)

text \<open>
  The handler returns what the steps return; when they raise, it returns the failure
  outcome if the description of the exception can be printed, and otherwise raises what
  that \<open>print\<close> raises.
\<close>

lemma lambda_handler_fst:
  "fst (lambda_handler w g event context s) =
     (case fst (lambda_steps w g s') of
        Inl e \<Rightarrow>
          if encodable (exception_str w e)
          then Inr \<lparr>statusCode = 500,
                    body = json_dumps_str (ascii ''An error occurred: '' @ exception_str w e)\<rparr>
          else Inl (UnicodeEncodeError (ascii ''An unexpected error occurred: '' @ exception_str w e))
      | Inr r \<Rightarrow> Inr r)"
proof -
  have "fst (lambda_steps w g s') =
          fst (lambda_steps w g (snd (print (ascii ''--- Start Execution ---'') s)))"
    unfolding lambda_steps_fst [where sa = s and sb = s and sc = s] by (rule refl)
  then show ?thesis
    by (simp add: lambda_handler_def print_def split: prod.splits sum.splits)
qed

lemma lambda_handler_calls:
  "calls (snd (lambda_handler w g event context s)) =
     calls (snd (lambda_steps w g (snd (print (ascii ''--- Start Execution ---'') s))))"
  by (simp add: lambda_handler_def print_def split: prod.splits sum.splits)

lemma lambda_handler_calls_steps:
  "calls (snd (lambda_handler w g event context s)) =
     calls s @ ConversationsHistory (slack_client g) INPUT_CHANNEL_ID 1 True #
     (case fst (get_latest_message_from_slack w g INPUT_CHANNEL_ID sa) of
        Inl e \<Rightarrow> []
      | Inr m \<Rightarrow>
          if \<not> truthy m then []
          else InvokeModel (bedrock_runtime g) (request_body w m) model_id
                 (ascii ''application/json'') (ascii ''application/json'') #
               (case fst (invoke_bedrock_model w g m sb) of
                  Inl e \<Rightarrow> []
                | Inr summary \<Rightarrow>
                    [ChatPostMessage (slack_client g) OUTPUT_CHANNEL_ID (result_text w summary)]))"
  by (simp add: lambda_handler_calls lambda_steps_calls [where sa = sa and sb = sb])

lemma quoted_neq: "[34] @ xs @ [34] \<noteq> (xs :: pystr)"
proof
  assume "[34] @ xs @ [34] = xs"
  then have "length ([34] @ xs @ [34]) = length xs" by (rule arg_cong)
  then show False by simp
qed

lemma no_op_body:
  "json_dumps_str (ascii ''No new messages to process.'') =
     [34] @ ascii ''No new messages to process.'' @ [34]"
  by (simp add: json_dumps_str_def ascii_def escape_char_def)

lemma success_body:
  "json_dumps_str (ascii ''Successfully processed message.'') =
     [34] @ ascii ''Successfully processed message.'' @ [34]"
  by (simp add: json_dumps_str_def ascii_def escape_char_def)

lemma ascii_eq_iff [simp]: "ascii a = ascii b \<longleftrightarrow> a = b"
proof -
  have "inj (of_char :: char \<Rightarrow> nat)"
    by (simp add: inj_def)
  then show ?thesis
    by (simp add: ascii_def inj_map_eq_map)
qed

lemma surrogate_example [simp]: "\<not> encodable [55357]"
  by (simp add: is_surrogate_def)

lemma example_exc_str [simp]:
  "exception_str (example_world ms reply decoded posted) (OtherException c msg) = msg"
  "exception_str (example_world ms reply decoded posted) (SlackApiError r) = ascii ''error''"
  by (simp_all add: exception_str_def example_world_def)

lemma error_body:
  "json_dumps_str (ascii ''An error occurred: '' @ ascii ''error'') =
     [34] @ ascii ''An error occurred: error'' @ [34]"
  "json_dumps_str (ascii ''An error occurred: '' @ ascii ''throttled'') =
     [34] @ ascii ''An error occurred: throttled'' @ [34]"
  by (simp_all add: json_dumps_str_def ascii_def escape_char_def)

section \<open>The claims\<close>





text \<open>
  C2, as amended. When the fetch returns no message, \<open>lambda_handler\<close> returns status
  200 with the JSON encoding of the no-op text as its body, that is the text between two
  double quote characters, and the history call is the only call made: neither the
  inference call nor the post call happens.
\<close>

theorem no_message_is_no_op:
  assumes "fst (get_latest_message_from_slack w g INPUT_CHANNEL_ID s') = Inr PNone"
  shows "fst (lambda_handler w g event context s) =
           Inr \<lparr>statusCode = 200, body = [34] @ ascii ''No new messages to process.'' @ [34]\<rparr>
         \<and> calls (snd (lambda_handler w g event context s)) =
             calls s @ [ConversationsHistory (slack_client g) INPUT_CHANNEL_ID 1 True]"
  using assms
  by (simp add: lambda_handler_fst [where s' = s'] no_op_body
      lambda_steps_fst [where sa = s' and sb = s' and sc = s']
      lambda_handler_calls_steps [where sa = s' and sb = s'])

lemma empty_channel_fetch:
  "fst (get_latest_message_from_slack empty_channel_world example_globals INPUT_CHANNEL_ID no_effects)
     = Inr PNone"
  by (simp add: get_latest_fst [where s' = no_effects] empty_channel_world_def example_world_def
      latest_of_response_def print_def)

theorem no_message_is_no_op_witness:
  "fst (get_latest_message_from_slack empty_channel_world example_globals INPUT_CHANNEL_ID no_effects)
     = Inr PNone
   \<and> fst (lambda_handler empty_channel_world example_globals PNone PNone no_effects) =
       Inr \<lparr>statusCode = 200, body = [34] @ ascii ''No new messages to process.'' @ [34]\<rparr>
   \<and> calls (snd (lambda_handler empty_channel_world example_globals PNone PNone no_effects)) =
       [ConversationsHistory (WebClient (ascii ''xoxb-example'')) (ascii ''C091S67LDEJ'') 1 True]"
  using empty_channel_fetch no_message_is_no_op [OF empty_channel_fetch, of PNone PNone no_effects]
  by (simp add: example_globals_def no_effects_def INPUT_CHANNEL_ID_def)

text \<open>
  C2 as stated fails on the body: for an empty channel the body is not the bare text
  \<open>No new messages to process.\<close>, since \<open>json.dumps\<close> puts it between quotes.
\<close>

theorem no_op_body_is_quoted:
  "fst (get_latest_message_from_slack empty_channel_world example_globals INPUT_CHANNEL_ID no_effects)
     = Inr PNone
   \<and> fst (lambda_handler empty_channel_world example_globals PNone PNone no_effects) \<noteq>
       Inr \<lparr>statusCode = 200, body = ascii ''No new messages to process.''\<rparr>"
  using empty_channel_fetch
  by (simp add: lambda_handler_fst [where s' = no_effects]
      lambda_steps_fst [where sa = no_effects and sb = no_effects and sc = no_effects] no_op_body quoted_neq)

text \<open>
  C10. When the fetch returns a message whose text is the empty string, the handler takes
  the no-op branch exactly as for an empty channel: same status 200, same no-op body, and
  the history call is the only call made, although a message exists.
\<close>

theorem blank_message_is_no_op:
  assumes "fst (get_latest_message_from_slack w g INPUT_CHANNEL_ID s') = Inr (PStr [])"
  shows "fst (lambda_handler w g event context s) =
           Inr \<lparr>statusCode = 200, body = [34] @ ascii ''No new messages to process.'' @ [34]\<rparr>
         \<and> calls (snd (lambda_handler w g event context s)) =
             calls s @ [ConversationsHistory (slack_client g) INPUT_CHANNEL_ID 1 True]
         \<and> fst (lambda_handler w g event context s) =
             fst (lambda_handler empty_channel_world g event context s)"
proof -
  have empty: "fst (get_latest_message_from_slack empty_channel_world g INPUT_CHANNEL_ID s') = Inr PNone"
    by (simp add: get_latest_fst [where s' = s'] empty_channel_world_def example_world_def
        latest_of_response_def print_def)
  show ?thesis
    using assms empty
    by (simp add: lambda_handler_fst [where s' = s'] no_op_body
        lambda_steps_fst [where sa = s' and sb = s' and sc = s']
        lambda_handler_calls_steps [where sa = s' and sb = s'])
qed

lemma blank_message_fetch:
  "fst (get_latest_message_from_slack blank_message_world example_globals INPUT_CHANNEL_ID no_effects)
     = Inr (PStr [])"
  by (simp add: get_latest_fst [where s' = no_effects] blank_message_world_def example_world_def
      latest_of_response_def one_message_def seq_index_def print_def py_str_def)

theorem blank_message_is_no_op_witness:
  "fst (get_latest_message_from_slack blank_message_world example_globals INPUT_CHANNEL_ID no_effects)
     = Inr (PStr [])
   \<and> fst (lambda_handler blank_message_world example_globals PNone PNone no_effects) =
       Inr \<lparr>statusCode = 200, body = [34] @ ascii ''No new messages to process.'' @ [34]\<rparr>
   \<and> calls (snd (lambda_handler blank_message_world example_globals PNone PNone no_effects)) =
       [ConversationsHistory (WebClient (ascii ''xoxb-example'')) (ascii ''C091S67LDEJ'') 1 True]"
  using blank_message_fetch
    blank_message_is_no_op [OF blank_message_fetch, of PNone PNone no_effects]
  by (simp add: example_globals_def no_effects_def INPUT_CHANNEL_ID_def)

text \<open>
  C7, as amended. When a message is fetched, summarised and posted without an exception,
  \<open>lambda_handler\<close> returns status 200 and, as its body, the JSON encoding of the
  success text: the text between two double quote characters.
\<close>

theorem success_outcome:
  assumes "fst (get_latest_message_from_slack w g INPUT_CHANNEL_ID s1) = Inr m"
    and "truthy m"
    and "fst (invoke_bedrock_model w g m s2) = Inr summary"
    and "fst (post_message_to_slack w g OUTPUT_CHANNEL_ID (result_text w summary) s3) = Inr ()"
  shows "fst (lambda_handler w g event context s) =
           Inr \<lparr>statusCode = 200,
                body = [34] @ ascii ''Successfully processed message.'' @ [34]\<rparr>"
  using assms
  by (simp add: lambda_handler_fst [where s' = s] success_body
      lambda_steps_fst [where sa = s1 and sb = s2 and sc = s3])

lemma one_message_fetch:
  "encodable t \<Longrightarrow>
   fst (get_latest_message_from_slack (example_world (Inr (one_message t)) reply decoded posted)
          example_globals INPUT_CHANNEL_ID no_effects) = Inr (PStr t)"
  by (simp add: get_latest_fst [where s' = no_effects] example_world_def latest_of_response_def
      one_message_def seq_index_def print_def py_str_def)

lemma summary_body_invoke:
  "encodable t \<Longrightarrow>
   fst (invoke_bedrock_model (example_world ms stream_reply (Inr (summary_body t)) posted)
          example_globals m no_effects) = Inr (PStr t)"
  by (simp add: invoke_fst example_world_def stream_reply_def summary_of_response_def
      summary_body_def seq_index_def py_str_def)

lemma shipped_fetch:
  "fst (get_latest_message_from_slack shipped_world example_globals INPUT_CHANNEL_ID no_effects)
     = Inr (PStr (ascii ''Team shipped v2 today.''))"
  by (simp add: shipped_world_def one_message_fetch)

lemma shipped_invoke:
  "fst (invoke_bedrock_model shipped_world example_globals m no_effects)
     = Inr (PStr (ascii ''- Shipped v2''))"
  by (simp add: shipped_world_def summary_body_invoke)

lemma shipped_post:
  "fst (post_message_to_slack shipped_world example_globals OUTPUT_CHANNEL_ID t no_effects) = Inr ()"
  by (simp add: post_fst shipped_world_def example_world_def)

lemma shipped_truthy: "truthy (PStr (ascii ''Team shipped v2 today.''))"
  by (simp add: ascii_def)

theorem success_outcome_witness:
  "fst (get_latest_message_from_slack shipped_world example_globals INPUT_CHANNEL_ID no_effects)
     = Inr (PStr (ascii ''Team shipped v2 today.''))
   \<and> truthy (PStr (ascii ''Team shipped v2 today.''))
   \<and> fst (invoke_bedrock_model shipped_world example_globals
            (PStr (ascii ''Team shipped v2 today.'')) no_effects) = Inr (PStr (ascii ''- Shipped v2''))
   \<and> fst (post_message_to_slack shipped_world example_globals OUTPUT_CHANNEL_ID
            (result_text shipped_world (PStr (ascii ''- Shipped v2''))) no_effects) = Inr ()
   \<and> fst (lambda_handler shipped_world example_globals PNone PNone no_effects) =
       Inr \<lparr>statusCode = 200,
            body = [34] @ ascii ''Successfully processed message.'' @ [34]\<rparr>"
  using shipped_fetch shipped_truthy shipped_invoke shipped_post
    success_outcome [OF shipped_fetch shipped_truthy shipped_invoke shipped_post,
      of PNone PNone no_effects]
  by simp

text \<open>
  C7 as stated fails: after a successful run the body is not the bare text
  \<open>Successfully processed message.\<close>; it has the two quotes around it.
\<close>

theorem success_body_is_quoted:
  "fst (post_message_to_slack shipped_world example_globals OUTPUT_CHANNEL_ID
          (result_text shipped_world (PStr (ascii ''- Shipped v2''))) no_effects) = Inr ()
   \<and> fst (lambda_handler shipped_world example_globals PNone PNone no_effects) \<noteq>
       Inr \<lparr>statusCode = 200, body = ascii ''Successfully processed message.''\<rparr>"
  using shipped_fetch shipped_truthy shipped_invoke shipped_post
  by (simp add: lambda_handler_fst [where s' = no_effects]
      lambda_steps_fst [where sa = no_effects and sb = no_effects and sc = no_effects] success_body quoted_neq)


lemma hello_fetch:
  "fst (get_latest_message_from_slack failing_post_world example_globals INPUT_CHANNEL_ID no_effects)
     = Inr (PStr (ascii ''Hello''))"
  "fst (get_latest_message_from_slack hello_world example_globals INPUT_CHANNEL_ID no_effects)
     = Inr (PStr (ascii ''Hello''))"
  "fst (get_latest_message_from_slack failing_inference_world example_globals INPUT_CHANNEL_ID no_effects)
     = Inr (PStr (ascii ''Hello''))"
  "fst (get_latest_message_from_slack unprintable_post_error_world example_globals INPUT_CHANNEL_ID
          no_effects) = Inr (PStr (ascii ''Hello''))"
  by (simp_all add: failing_post_world_def hello_world_def failing_inference_world_def
      unprintable_post_error_world_def one_message_fetch)

lemma hello_truthy: "truthy (PStr (ascii ''Hello''))"
  by (simp add: ascii_def)

lemma greeting_invoke:
  "fst (invoke_bedrock_model failing_post_world example_globals m no_effects)
     = Inr (PStr (ascii ''- A greeting''))"
  "fst (invoke_bedrock_model hello_world example_globals m no_effects)
     = Inr (PStr (ascii ''- A greeting''))"
  "fst (invoke_bedrock_model unprintable_post_error_world example_globals m no_effects)
     = Inr (PStr (ascii ''- A greeting''))"
  by (simp_all add: failing_post_world_def hello_world_def unprintable_post_error_world_def
      summary_body_invoke)






text \<open>
  C5. When a message has been fetched and the inference step raises, \<open>lambda_handler\<close>
  returns the failure outcome, status 500, and the calls made are the history call and the
  inference call only: the post call is never made. (What the inference step raises has
  always a description that can be printed: the step has printed it itself, or it is the
  error of a \<open>print\<close>.)
\<close>

theorem inference_error_gives_failure:
  assumes "fst (get_latest_message_from_slack w g INPUT_CHANNEL_ID sa) = Inr m"
    and "truthy m"
    and "fst (invoke_bedrock_model w g m sb) = Inl e"
  shows "fst (lambda_handler w g event context s) =
           Inr \<lparr>statusCode = 500,
                body = json_dumps_str (ascii ''An error occurred: '' @ exception_str w e)\<rparr>
         \<and> calls (snd (lambda_handler w g event context s)) =
             calls s @ [ConversationsHistory (slack_client g) INPUT_CHANNEL_ID 1 True,
                        InvokeModel (bedrock_runtime g) (request_body w m) model_id
                          (ascii ''application/json'') (ascii ''application/json'')]"
  using assms invoke_error_printable [OF assms(3)]
  by (simp add: lambda_handler_fst [where s' = s]
      lambda_steps_fst [where sa = sa and sb = sb and sc = sb]
      lambda_handler_calls_steps [where sa = sa and sb = sb])

lemma failing_invoke:
  "fst (invoke_bedrock_model failing_inference_world example_globals m no_effects)
     = Inl (OtherException (ascii ''ClientError'') (ascii ''throttled''))"
  by (simp add: invoke_fst failing_inference_world_def example_world_def exception_str_def)

theorem inference_error_gives_failure_witness:
  "fst (get_latest_message_from_slack failing_inference_world example_globals INPUT_CHANNEL_ID
          no_effects) = Inr (PStr (ascii ''Hello''))
   \<and> truthy (PStr (ascii ''Hello''))
   \<and> fst (invoke_bedrock_model failing_inference_world example_globals (PStr (ascii ''Hello''))
            no_effects) = Inl (OtherException (ascii ''ClientError'') (ascii ''throttled''))
   \<and> fst (lambda_handler failing_inference_world example_globals PNone PNone no_effects) =
       Inr \<lparr>statusCode = 500, body = [34] @ ascii ''An error occurred: throttled'' @ [34]\<rparr>
   \<and> calls (snd (lambda_handler failing_inference_world example_globals PNone PNone no_effects)) =
       [ConversationsHistory (slack_client example_globals) INPUT_CHANNEL_ID 1 True,
        InvokeModel (bedrock_runtime example_globals)
          (request_body failing_inference_world (PStr (ascii ''Hello''))) model_id
          (ascii ''application/json'') (ascii ''application/json'')]"
proof -
  have d: "exception_str failing_inference_world
             (OtherException (ascii ''ClientError'') (ascii ''throttled'')) = ascii ''throttled''"
    by (simp add: failing_inference_world_def)
  show ?thesis
    using hello_fetch(3) hello_truthy failing_invoke
      inference_error_gives_failure [OF hello_fetch(3) hello_truthy failing_invoke,
        of PNone PNone no_effects]
    by (simp add: d error_body no_effects_def)
qed

text \<open>
  C3. In the scenario where the fetched message is \<open>Team shipped v2 today.\<close> and the
  inference step returns \<open>- Shipped v2\<close>, the text posted to the output channel is
  exactly the fixed prefix (the nine code points of its Japanese heading), a newline,
  \<open>>>> \<close> and the summary.
\<close>

theorem shipped_scenario_posted_text:
  assumes "fst (get_latest_message_from_slack w g INPUT_CHANNEL_ID sa) =
             Inr (PStr (ascii ''Team shipped v2 today.''))"
    and "fst (invoke_bedrock_model w g (PStr (ascii ''Team shipped v2 today.'')) sb) =
           Inr (PStr (ascii ''- Shipped v2''))"
  shows "calls (snd (lambda_handler w g event context s)) =
           calls s @
           [ConversationsHistory (slack_client g) INPUT_CHANNEL_ID 1 True,
            InvokeModel (bedrock_runtime g) (request_body w (PStr (ascii ''Team shipped v2 today.'')))
              model_id (ascii ''application/json'') (ascii ''application/json''),
            ChatPostMessage (slack_client g) OUTPUT_CHANNEL_ID
              ([12304, 65, 73, 12395, 12424, 12427, 35201, 32004, 12305, 10, 62, 62, 62, 32]
               @ ascii ''- Shipped v2'')]"
  using assms shipped_truthy
  by (simp add: lambda_handler_calls_steps [where sa = sa and sb = sb]
      result_text_def summary_prefix_def py_str_def)

theorem shipped_scenario_posted_text_witness:
  "fst (get_latest_message_from_slack shipped_world example_globals INPUT_CHANNEL_ID no_effects) =
     Inr (PStr (ascii ''Team shipped v2 today.''))
   \<and> fst (invoke_bedrock_model shipped_world example_globals
            (PStr (ascii ''Team shipped v2 today.'')) no_effects) = Inr (PStr (ascii ''- Shipped v2''))
   \<and> calls (snd (lambda_handler shipped_world example_globals PNone PNone no_effects)) =
       [ConversationsHistory (slack_client example_globals) INPUT_CHANNEL_ID 1 True,
        InvokeModel (bedrock_runtime example_globals)
          (request_body shipped_world (PStr (ascii ''Team shipped v2 today.'')))
          model_id (ascii ''application/json'') (ascii ''application/json''),
        ChatPostMessage (slack_client example_globals) (ascii ''C09344CE82C'')
          ([12304, 65, 73, 12395, 12424, 12427, 35201, 32004, 12305, 10, 62, 62, 62, 32,
            45, 32, 83, 104, 105, 112, 112, 101, 100, 32, 118, 50])]"
  using shipped_fetch shipped_invoke
    shipped_scenario_posted_text [OF shipped_fetch shipped_invoke, of PNone PNone no_effects]
  by (simp add: no_effects_def OUTPUT_CHANNEL_ID_def ascii_def)

text \<open>
  The request body is one line of JSON in which the prompt is the only part that varies;
  a run of plain ASCII letters of the prompt is found unchanged in it.
\<close>

lemma payload_text:
  "json_dumps fr (request_payload p) =
     ascii ''{\"anthropic_version\": \"bedrock-2023-05-31\", \"max_tokens\": 1000, \"messages\": [{\"role\": \"user\", \"content\": [{\"type\": \"text\", \"text\": ''
     @ json_dumps_str p @ ascii ''}]}]}''"
  by (simp add: request_payload_def json_dumps_str_def ascii_def escape_char_def int_repr_def
      nat_repr.simps [of 1000] nat_repr.simps [of 100] nat_repr.simps [of 10]
      nat_repr.simps [of "Suc 0"])

lemma hello_escaped: "concat (map escape_char (ascii ''Hello'')) = ascii ''Hello''"
  by (simp add: ascii_def escape_char_def)

lemma hello_in_prompt:
  "prompt w (PStr (ascii ''Hello'')) = prompt_head @ ascii ''Hello'' @ prompt_tail"
  by (simp add: prompt_def py_str_def)

lemma hello_in_body: "sublist (ascii ''Hello'') (request_body w (PStr (ascii ''Hello'')))"
proof -
  let ?before = "ascii ''{\"anthropic_version\": \"bedrock-2023-05-31\", \"max_tokens\": 1000, \"messages\": [{\"role\": \"user\", \"content\": [{\"type\": \"text\", \"text\": ''
     @ [34] @ concat (map escape_char prompt_head)"
  let ?after = "concat (map escape_char prompt_tail) @ [34] @ ascii ''}]}]}''"
  have "request_body w (PStr (ascii ''Hello'')) = ?before @ ascii ''Hello'' @ ?after"
    by (simp add: request_body_def payload_text hello_in_prompt json_dumps_str_def hello_escaped)
  then show ?thesis
    by (simp only: sublist_appendI)
qed

lemma result_text_shape:
  "prefix [12304, 65, 73, 12395, 12424, 12427, 35201, 32004, 12305] (result_text w summary)
   \<and> sublist (py_str w summary) (result_text w summary)"
proof -
  have "result_text w summary = (summary_prefix @ [10, 62, 62, 62, 32]) @ py_str w summary @ []"
    by (simp add: result_text_def)
  then have "sublist (py_str w summary) (result_text w summary)"
    by (simp only: sublist_appendI)
  then show ?thesis by (simp add: result_text_def summary_prefix_def)
qed

text \<open>
  C8. When the latest message is \<open>Hello\<close>: the history call asks for one message
  (\<open>limit = 1\<close>); the inference call carries, as its body, the JSON text of the request,
  whose prompt is the template around \<open>Hello\<close>, and \<open>Hello\<close> stands in that body;
  and, once the inference step has returned a summary, the one message posted to the
  output channel begins with the nine code points of the fixed prefix and contains the
  summary verbatim.
\<close>

theorem hello_is_summarised_and_posted:
  assumes "fst (get_latest_message_from_slack w g INPUT_CHANNEL_ID sa) = Inr (PStr (ascii ''Hello''))"
  shows "\<exists>sent rest.
           calls (snd (lambda_handler w g event context s)) =
             calls s @
             ConversationsHistory (slack_client g) INPUT_CHANNEL_ID 1 True #
             InvokeModel (bedrock_runtime g) sent
               model_id (ascii ''application/json'') (ascii ''application/json'') # rest
           \<and> sent =
               ascii ''{\"anthropic_version\": \"bedrock-2023-05-31\", \"max_tokens\": 1000, \"messages\": [{\"role\": \"user\", \"content\": [{\"type\": \"text\", \"text\": ''
               @ json_dumps_str (prompt_head @ ascii ''Hello'' @ prompt_tail) @ ascii ''}]}]}''
           \<and> sublist (ascii ''Hello'') sent
           \<and> (\<forall>summary.
                 fst (invoke_bedrock_model w g (PStr (ascii ''Hello'')) sb) = Inr (PStr summary) \<longrightarrow>
                 (\<exists>posted. rest = [ChatPostMessage (slack_client g) OUTPUT_CHANNEL_ID posted]
                    \<and> prefix [12304, 65, 73, 12395, 12424, 12427, 35201, 32004, 12305] posted
                    \<and> sublist summary posted))"
proof -
  let ?sent = "request_body w (PStr (ascii ''Hello''))"
  let ?rest = "case fst (invoke_bedrock_model w g (PStr (ascii ''Hello'')) sb) of
                 Inl e \<Rightarrow> []
               | Inr summary \<Rightarrow>
                   [ChatPostMessage (slack_client g) OUTPUT_CHANNEL_ID (result_text w summary)]"
  have trace: "calls (snd (lambda_handler w g event context s)) =
             calls s @
             ConversationsHistory (slack_client g) INPUT_CHANNEL_ID 1 True #
             InvokeModel (bedrock_runtime g) ?sent
               model_id (ascii ''application/json'') (ascii ''application/json'') # ?rest"
    using assms hello_truthy
    by (simp add: lambda_handler_calls_steps [where sa = sa and sb = sb])
  have wording: "?sent =
               ascii ''{\"anthropic_version\": \"bedrock-2023-05-31\", \"max_tokens\": 1000, \"messages\": [{\"role\": \"user\", \"content\": [{\"type\": \"text\", \"text\": ''
               @ json_dumps_str (prompt_head @ ascii ''Hello'' @ prompt_tail) @ ascii ''}]}]}''"
    by (simp only: request_body_def payload_text hello_in_prompt)
  have inside: "sublist (ascii ''Hello'') ?sent"
    by (rule hello_in_body)
  have posted: "\<forall>summary.
                 fst (invoke_bedrock_model w g (PStr (ascii ''Hello'')) sb) = Inr (PStr summary) \<longrightarrow>
                 (\<exists>posted. ?rest = [ChatPostMessage (slack_client g) OUTPUT_CHANNEL_ID posted]
                    \<and> prefix [12304, 65, 73, 12395, 12424, 12427, 35201, 32004, 12305] posted
                    \<and> sublist summary posted)"
  proof (intro allI impI)
    fix summary
    assume "fst (invoke_bedrock_model w g (PStr (ascii ''Hello'')) sb) = Inr (PStr summary)"
    then have "?rest = [ChatPostMessage (slack_client g) OUTPUT_CHANNEL_ID
                          (result_text w (PStr summary))]"
      by simp
    moreover have "prefix [12304, 65, 73, 12395, 12424, 12427, 35201, 32004, 12305]
                     (result_text w (PStr summary))
                   \<and> sublist summary (result_text w (PStr summary))"
      using result_text_shape [of w "PStr summary"] by (simp add: py_str_def)
    ultimately show "\<exists>posted. ?rest = [ChatPostMessage (slack_client g) OUTPUT_CHANNEL_ID posted]
                    \<and> prefix [12304, 65, 73, 12395, 12424, 12427, 35201, 32004, 12305] posted
                    \<and> sublist summary posted"
      by blast
  qed
  from trace wording inside posted show ?thesis by blast
qed

theorem hello_is_summarised_and_posted_witness:
  "fst (get_latest_message_from_slack hello_world example_globals INPUT_CHANNEL_ID no_effects)
     = Inr (PStr (ascii ''Hello''))
   \<and> fst (invoke_bedrock_model hello_world example_globals (PStr (ascii ''Hello'')) no_effects)
       = Inr (PStr (ascii ''- A greeting''))
   \<and> (\<exists>sent posted.
         calls (snd (lambda_handler hello_world example_globals PNone PNone no_effects)) =
           [ConversationsHistory (slack_client example_globals) INPUT_CHANNEL_ID 1 True,
            InvokeModel (bedrock_runtime example_globals) sent
              model_id (ascii ''application/json'') (ascii ''application/json''),
            ChatPostMessage (slack_client example_globals) OUTPUT_CHANNEL_ID posted]
         \<and> sublist (ascii ''Hello'') sent
         \<and> prefix [12304, 65, 73, 12395, 12424, 12427, 35201, 32004, 12305] posted
         \<and> sublist (ascii ''- A greeting'') posted)"
proof -
  obtain sent rest where
    trace: "calls (snd (lambda_handler hello_world example_globals PNone PNone no_effects)) =
             calls no_effects @
             ConversationsHistory (slack_client example_globals) INPUT_CHANNEL_ID 1 True #
             InvokeModel (bedrock_runtime example_globals) sent
               model_id (ascii ''application/json'') (ascii ''application/json'') # rest"
    and inside: "sublist (ascii ''Hello'') sent"
    and posted: "\<forall>summary.
                 fst (invoke_bedrock_model hello_world example_globals (PStr (ascii ''Hello''))
                        no_effects) = Inr (PStr summary) \<longrightarrow>
                 (\<exists>posted. rest = [ChatPostMessage (slack_client example_globals)
                                      OUTPUT_CHANNEL_ID posted]
                    \<and> prefix [12304, 65, 73, 12395, 12424, 12427, 35201, 32004, 12305] posted
                    \<and> sublist summary posted)"
    using hello_is_summarised_and_posted [OF hello_fetch(2), of PNone PNone no_effects no_effects]
    by (elim exE conjE) (rule that, assumption+)
  from posted greeting_invoke(2) obtain posted_text where
    "rest = [ChatPostMessage (slack_client example_globals) OUTPUT_CHANNEL_ID posted_text]"
    "prefix [12304, 65, 73, 12395, 12424, 12427, 35201, 32004, 12305] posted_text"
    "sublist (ascii ''- A greeting'') posted_text"
    by blast
  with trace inside have "\<exists>sent posted.
         calls (snd (lambda_handler hello_world example_globals PNone PNone no_effects)) =
           [ConversationsHistory (slack_client example_globals) INPUT_CHANNEL_ID 1 True,
            InvokeModel (bedrock_runtime example_globals) sent
              model_id (ascii ''application/json'') (ascii ''application/json''),
            ChatPostMessage (slack_client example_globals) OUTPUT_CHANNEL_ID posted]
         \<and> sublist (ascii ''Hello'') sent
         \<and> prefix [12304, 65, 73, 12395, 12424, 12427, 35201, 32004, 12305] posted
         \<and> sublist (ascii ''- A greeting'') posted"
    by (auto simp add: no_effects_def)
  with hello_fetch(2) greeting_invoke(2) show ?thesis
    by simp
qed






lemma example_stream:
  "body_stream \<lparr>body_stream = Some (Inr ''reply'')\<rparr> = Some (Inr ''reply'')"
  by simp





text \<open>
  The handler reads nothing from the environment, so a run of invocations adds no lookup
  to the trace; and every trigger of a run yields one outcome.
\<close>

lemma module_init_calls:
  "calls (snd (module_init environ s)) = calls s @ [EnvironGet (ascii ''SLACK_BOT_TOKEN'')]"
  by (simp add: module_init_def Let_def split: option.splits)

lemma lambda_handler_new_calls:
  "\<exists>new. calls (snd (lambda_handler w g event context s)) = calls s @ new
         \<and> filter is_EnvironGet new = []"
proof -
  let ?new = "ConversationsHistory (slack_client g) INPUT_CHANNEL_ID 1 True #
     (case fst (get_latest_message_from_slack w g INPUT_CHANNEL_ID s) of
        Inl e \<Rightarrow> []
      | Inr m \<Rightarrow>
          if \<not> truthy m then []
          else InvokeModel (bedrock_runtime g) (request_body w m) model_id
                 (ascii ''application/json'') (ascii ''application/json'') #
               (case fst (invoke_bedrock_model w g m s) of
                  Inl e \<Rightarrow> []
                | Inr summary \<Rightarrow>
                    [ChatPostMessage (slack_client g) OUTPUT_CHANNEL_ID (result_text w summary)]))"
  have "calls (snd (lambda_handler w g event context s)) = calls s @ ?new"
    by (simp add: lambda_handler_calls_steps [where sa = s and sb = s])
  moreover have "filter is_EnvironGet ?new = []"
    by (simp add: is_EnvironGet_def split: sum.splits)
  ultimately show ?thesis by blast
qed

lemma invocations_snd:
  "snd (invocations g ((w, event, context) # rest) s) =
     snd (invocations g rest (snd (lambda_handler w g event context s)))"
  by (simp split: prod.splits)

lemma invocations_new_calls:
  "\<exists>new. calls (snd (invocations g triggers s)) = calls s @ new
         \<and> filter is_EnvironGet new = []"
proof (induction triggers arbitrary: s)
  case Nil
  then show ?case by simp
next
  case (Cons trigger triggers)
  obtain w event "context" where trigger: "trigger = (w, event, context)"
    by (cases trigger) auto
  obtain first where
    first: "calls (snd (lambda_handler w g event context s)) = calls s @ first"
      "filter is_EnvironGet first = []"
    using lambda_handler_new_calls by blast
  obtain later where
    later: "calls (snd (invocations g triggers (snd (lambda_handler w g event context s)))) =
              calls (snd (lambda_handler w g event context s)) @ later"
      "filter is_EnvironGet later = []"
    using Cons.IH by blast
  have "snd (invocations g (trigger # triggers) s) =
          snd (invocations g triggers (snd (lambda_handler w g event context s)))"
    unfolding trigger by (rule invocations_snd)
  then have "calls (snd (invocations g (trigger # triggers) s)) = calls s @ (first @ later)"
    using first(1) later(1) by (simp del: invocations.simps)
  moreover have "filter is_EnvironGet (first @ later) = []"
    using first(2) later(2) by simp
  ultimately show ?case by blast
qed

lemma invocations_length:
  "length (fst (invocations g triggers s)) = length triggers"
proof (induction triggers arbitrary: s)
  case Nil
  then show ?case by simp
next
  case (Cons trigger triggers)
  obtain w event "context" where trigger: "trigger = (w, event, context)"
    by (cases trigger) auto
  have "fst (invocations g (trigger # triggers) s) =
          fst (lambda_handler w g event context s) #
          fst (invocations g triggers (snd (lambda_handler w g event context s)))"
    by (simp add: trigger split: prod.splits)
  then show ?case
    using Cons.IH [of "snd (lambda_handler w g event context s)"]
    by (simp del: invocations.simps)
qed

text \<open>
  C6. The module body and the invocations that follow it form one process. When the
  environment holds no \<open>SLACK_BOT_TOKEN\<close>, the process ends with the exception raised by
  the module body, and its only effect is the lookup itself: no invocation of the handler
  has run. When the token is there, every trigger gets its invocation. In both cases the
  process looks the token up once, as its first call, and never again, however many
  invocations follow.
\<close>

theorem token_read_once_at_startup:
  "(environ (ascii ''SLACK_BOT_TOKEN'') = None \<longrightarrow>
      process environ triggers s =
        (Inl (OtherException (ascii ''Exception'') missing_token_message),
         record_call (EnvironGet (ascii ''SLACK_BOT_TOKEN'')) s))
   \<and> (environ (ascii ''SLACK_BOT_TOKEN'') \<noteq> None \<longrightarrow>
        (\<exists>rs. fst (process environ triggers s) = Inr rs \<and> length rs = length triggers))
   \<and> (\<exists>rest. calls (snd (process environ triggers s)) =
                 calls s @ EnvironGet (ascii ''SLACK_BOT_TOKEN'') # rest
              \<and> filter is_EnvironGet rest = [])"
proof (intro conjI impI)
  assume "environ (ascii ''SLACK_BOT_TOKEN'') = None"
  then show "process environ triggers s =
        (Inl (OtherException (ascii ''Exception'') missing_token_message),
         record_call (EnvironGet (ascii ''SLACK_BOT_TOKEN'')) s)"
    by (simp add: process_def module_init_def Let_def)
next
  assume "environ (ascii ''SLACK_BOT_TOKEN'') \<noteq> None"
  then obtain g s1 where init: "module_init environ s = (Inr g, s1)"
    by (auto simp add: module_init_def Let_def)
  have "fst (process environ triggers s) = Inr (fst (invocations g triggers s1))"
    by (simp add: process_def init split: prod.splits)
  then show "\<exists>rs. fst (process environ triggers s) = Inr rs \<and> length rs = length triggers"
    by (simp add: invocations_length)
next
  show "\<exists>rest. calls (snd (process environ triggers s)) =
                 calls s @ EnvironGet (ascii ''SLACK_BOT_TOKEN'') # rest
              \<and> filter is_EnvironGet rest = []"
  proof (cases "environ (ascii ''SLACK_BOT_TOKEN'')")
    case None
    then have "calls (snd (process environ triggers s)) =
                 calls s @ EnvironGet (ascii ''SLACK_BOT_TOKEN'') # []"
      by (simp add: process_def module_init_def Let_def)
    then show ?thesis by (intro exI [of _ "[]"]) simp
  next
    case (Some tok)
    obtain g s1 where init: "module_init environ s = (Inr g, s1)"
      using Some by (simp add: module_init_def Let_def)
    have s1: "calls s1 = calls s @ [EnvironGet (ascii ''SLACK_BOT_TOKEN'')]"
      using module_init_calls [of environ s] init by simp
    obtain new where
      new: "calls (snd (invocations g triggers s1)) = calls s1 @ new"
        "filter is_EnvironGet new = []"
      using invocations_new_calls by blast
    have "snd (process environ triggers s) = snd (invocations g triggers s1)"
      by (simp add: process_def init split: prod.splits)
    then have "calls (snd (process environ triggers s)) =
                 calls s @ EnvironGet (ascii ''SLACK_BOT_TOKEN'') # new"
      using new(1) s1 by simp
    with new(2) show ?thesis by blast
  qed
qed

theorem token_read_once_at_startup_witness:
  "(Map.empty :: pystr \<rightharpoonup> pystr) (ascii ''SLACK_BOT_TOKEN'') = None
   \<and> process Map.empty [(empty_channel_world, PNone, PNone)] no_effects =
       (Inl (OtherException (ascii ''Exception'') missing_token_message),
        \<lparr>calls = [EnvironGet (ascii ''SLACK_BOT_TOKEN'')], stdout = []\<rparr>)
   \<and> [ascii ''SLACK_BOT_TOKEN'' \<mapsto> ascii ''xoxb-example''] (ascii ''SLACK_BOT_TOKEN'') \<noteq> None
   \<and> (\<exists>rs. fst (process [ascii ''SLACK_BOT_TOKEN'' \<mapsto> ascii ''xoxb-example'']
                   [(empty_channel_world, PNone, PNone), (empty_channel_world, PNone, PNone)]
                   no_effects) = Inr rs
           \<and> length rs = 2)
   \<and> (\<exists>rest. calls (snd (process [ascii ''SLACK_BOT_TOKEN'' \<mapsto> ascii ''xoxb-example'']
                   [(empty_channel_world, PNone, PNone), (empty_channel_world, PNone, PNone)]
                   no_effects)) = EnvironGet (ascii ''SLACK_BOT_TOKEN'') # rest
             \<and> filter is_EnvironGet rest = [])"
  using token_read_once_at_startup
          [of Map.empty "[(empty_channel_world, PNone, PNone)]" no_effects]
        token_read_once_at_startup
          [of "[ascii ''SLACK_BOT_TOKEN'' \<mapsto> ascii ''xoxb-example'']"
              "[(empty_channel_world, PNone, PNone), (empty_channel_world, PNone, PNone)]"
              no_effects]
  by (simp add: no_effects_def record_call_def numeral_2_eq_2)

end
